theory Spec2Isabelle
  imports Complex_Main "HOL-Library.Multiset" "HOL-Library.Product_Lexorder"
begin

section \<open>Numbers: the float64 cells of a numeric column\<close>

text \<open>
  A numeric column of the DataFrame holds IEEE 754 binary64 values; pandas marks a missing
  cell with NaN. A value is a sign (\<open>True\<close> is negative) with a non-negative magnitude, an
  infinity with its sign, or NaN. Integer columns (int64) take part in the arithmetic of
  \<open>app.py\<close> only through true division and through multiplication with a float, both of
  which convert them to float64 first.
\<close>

datatype f64 = Num bool real | Infty bool | NaN

abbreviation fl :: "real \<Rightarrow> f64" where
  "fl x \<equiv> Num False x"

definition notna :: "f64 \<Rightarrow> bool" where
  "notna x = (x \<noteq> NaN)"

definition is_zero :: "f64 \<Rightarrow> bool" where
  "is_zero x = (case x of Num s m \<Rightarrow> m = 0 | _ \<Rightarrow> False)"

definition pow2 :: "int \<Rightarrow> real" where
  "pow2 e = (if 0 \<le> e then 2 ^ nat e else 1 / 2 ^ nat (- e))"

text \<open>
  The binade of a magnitude: the exponent \<open>e\<close> with \<open>2 ^ e \<le> x < 2 ^ (e + 1)\<close>, kept
  within \<open>-1022 .. 1024\<close> (below is the subnormal range, whose spacing is that of
  exponent \<open>-1022\<close>; at \<open>1024\<close> the value has left the finite range).
\<close>

fun halvings :: "nat \<Rightarrow> real \<Rightarrow> int" where
  "halvings 0 x = 0"
| "halvings (Suc n) x = (if x < 2 then 0 else 1 + halvings n (x / 2))"

fun doublings :: "nat \<Rightarrow> real \<Rightarrow> int" where
  "doublings 0 x = 0"
| "doublings (Suc n) x = (if 1 \<le> x then 0 else doublings n (2 * x) - 1)"

definition binade :: "real \<Rightarrow> int" where
  "binade x = (if 1 \<le> x then halvings 1024 x else doublings 1022 x)"

definition round_half_even :: "real \<Rightarrow> int" where
  "round_half_even q =
     (let n = \<lfloor>q\<rfloor>; f = q - of_int n
      in if f < 1 / 2 then n else if 1 / 2 < f then n + 1
         else if even n then n else n + 1)"

text \<open>Round to nearest, ties to even, on the grid of 53-bit significands.\<close>

definition round_f64 :: "real \<Rightarrow> real" where
  "round_f64 x = (let u = pow2 (binade x - 52) in of_int (round_half_even (x / u)) * u)"

definition mk_f64 :: "bool \<Rightarrow> real \<Rightarrow> f64" where
  "mk_f64 s x = (let r = round_f64 x in if 2 ^ 1024 \<le> r then Infty s else Num s r)"

text \<open>
  \<open>*\<close> and \<open>/\<close> of two float64 values, as numpy computes them on a Series: no operation
  raises; a division by zero gives an infinity, or NaN for \<open>0 / 0\<close>.
\<close>

fun fmul :: "f64 \<Rightarrow> f64 \<Rightarrow> f64" where
  "fmul NaN _ = NaN"
| "fmul _ NaN = NaN"
| "fmul (Infty s) (Infty t) = Infty (s \<noteq> t)"
| "fmul (Infty s) (Num t m) = (if m = 0 then NaN else Infty (s \<noteq> t))"
| "fmul (Num s m) (Infty t) = (if m = 0 then NaN else Infty (s \<noteq> t))"
| "fmul (Num s m) (Num t k) = mk_f64 (s \<noteq> t) (m * k)"

fun fdiv :: "f64 \<Rightarrow> f64 \<Rightarrow> f64" where
  "fdiv NaN _ = NaN"
| "fdiv _ NaN = NaN"
| "fdiv (Infty s) (Infty t) = NaN"
| "fdiv (Infty s) (Num t m) = Infty (s \<noteq> t)"
| "fdiv (Num s m) (Infty t) = Num (s \<noteq> t) 0"
| "fdiv (Num s m) (Num t k) =
     (if k = 0 then (if m = 0 then NaN else Infty (s \<noteq> t))
      else mk_f64 (s \<noteq> t) (m / k))"

section \<open>Dates\<close>

text \<open>
  A pandas Timestamp, as (year, month, day, nanoseconds since midnight); the lexicographic
  order of the components is the chronological order. NaT is \<open>None\<close>.
\<close>

type_synonym timestamp = "int \<times> nat \<times> nat \<times> nat"

definition ymd :: "int \<Rightarrow> nat \<Rightarrow> nat \<Rightarrow> timestamp" where
  "ymd y m d = (y, m, d, 0)"

text \<open>
  A cell of the \<open>fecha\<close> column as read: text still to be parsed, a Timestamp, or a
  missing value.
\<close>

datatype datelike = RawText string | Stamp timestamp | NaT

text \<open>
  \<open>pd.to_datetime(s, errors="coerce")\<close>: a Timestamp passes through, a missing value is
  NaT, and text is parsed by pandas; a text that does not parse becomes NaT. The parser is
  the parameter \<open>p\<close>; it sees the whole Series, since pandas may infer one format for all
  of it.
\<close>

type_synonym parser = "datelike list \<Rightarrow> string \<Rightarrow> timestamp option"

definition to_datetime :: "parser \<Rightarrow> datelike list \<Rightarrow> timestamp option list" where
  "to_datetime p s =
     map (\<lambda>x. case x of RawText t \<Rightarrow> p s t | Stamp t \<Rightarrow> Some t | NaT \<Rightarrow> None) s"

text \<open>\<open>.dt.to_period("M").dt.to_timestamp()\<close> on one Timestamp.\<close>

fun month_start :: "timestamp \<Rightarrow> timestamp" where
  "month_start (y, m, d, n) = (y, m, 1, 0)"

definition to_month_start :: "parser \<Rightarrow> datelike list \<Rightarrow> timestamp option list" where
  "to_month_start p s = map (map_option month_start) (to_datetime p s)"

text \<open>A datetime Series handed to \<open>to_month_start\<close> again.\<close>

definition as_datelike :: "timestamp option \<Rightarrow> datelike" where
  "as_datelike x = (case x of None \<Rightarrow> NaT | Some t \<Rightarrow> Stamp t)"

text \<open>Comparisons of Timestamps: any comparison with NaT is False.\<close>

definition le_ts :: "timestamp option \<Rightarrow> timestamp option \<Rightarrow> bool" where
  "le_ts a b = (case (a, b) of (Some x, Some y) \<Rightarrow> x \<le> y | _ \<Rightarrow> False)"

definition nat_lt :: "timestamp option \<Rightarrow> timestamp option \<Rightarrow> bool" where
  "nat_lt a b = (case (a, b) of (Some x, Some y) \<Rightarrow> x < y | _ \<Rightarrow> False)"

section \<open>Tables\<close>

text \<open>
  A DataFrame over the columns \<open>app.py\<close> knows: \<open>columns\<close> is \<open>df.columns\<close>, and a row
  has a cell for each known column. The cell of a column that is not in \<open>columns\<close> is never
  read. The type parameter is the type of the \<open>fecha\<close> cells: \<open>datelike\<close> as uploaded,
  \<open>timestamp option\<close> once normalised.
\<close>

record 'd row =
  fecha :: 'd
  sueldo_nominal_ars :: f64
  usd_ars :: f64
  cpi_ar :: f64
  cpi_us :: f64

record 'd frame =
  columns :: "string list"
  rows :: "'d row list"

type_synonym mrow = "(timestamp option) row"
type_synonym mframe = "(timestamp option) frame"

text \<open>
  The reference index \<open>cpi_us_df\<close>. When \<open>fetch_cpi_us()\<close> returns, it is a table with
  the datetime column \<open>fecha\<close> and the column \<open>cpi_us\<close>, given row by row. When the fetch
  raises, the script goes on with \<open>pd.DataFrame(columns=["fecha","cpi_us"])\<close>: a table
  without rows whose columns have the dtype \<open>object\<close>.
\<close>

datatype reference = Unfetched | Fetched "(timestamp option \<times> f64) list"

text \<open>
  The ways the script ends early. \<open>SchemaError\<close>, \<open>EmptyRangeError\<close> and
  \<open>NoSeriesError\<close> are its three exits by \<open>st.error\<close> and \<open>st.stop()\<close>.
  \<open>MergeError\<close> is the \<open>ValueError\<close> that \<open>df.merge\<close> raises and \<open>DateInputError\<close>
  the exception of \<open>st.sidebar.date_input\<close> for a default that is NaT; nothing catches
  either.
\<close>

datatype error = SchemaError | MergeError | DateInputError | EmptyRangeError | NoSeriesError

text \<open>\<open>df["fecha"] = to_month_start(df["fecha"])\<close>\<close>

definition set_fecha :: "'a row list \<Rightarrow> 'b list \<Rightarrow> 'b row list" where
  "set_fecha rs fs =
     map (\<lambda>(r, f). \<lparr>fecha = f, sueldo_nominal_ars = sueldo_nominal_ars r,
                     usd_ars = usd_ars r, cpi_ar = cpi_ar r, cpi_us = cpi_us r\<rparr>) (zip rs fs)"

definition normalise_fecha :: "parser \<Rightarrow> datelike row list \<Rightarrow> mrow list" where
  "normalise_fecha p rs = set_fecha rs (to_month_start p (map fecha rs))"

text \<open>\<open>df[keep]\<close>: a column that is not kept is gone; its cells are left as missing.\<close>

definition keep_columns :: "string list \<Rightarrow> mrow \<Rightarrow> mrow" where
  "keep_columns keep r =
     r\<lparr>usd_ars := (if ''usd_ars'' \<in> set keep then usd_ars r else NaN),
       cpi_ar := (if ''cpi_ar'' \<in> set keep then cpi_ar r else NaN),
       cpi_us := (if ''cpi_us'' \<in> set keep then cpi_us r else NaN)\<rparr>"

text \<open>
  \<open>sort_values("fecha")\<close>: the rows with a date ascending by date, then the rows without
  a date in their order. The sort is numpy's quicksort of the array of dates, which promises
  no order for rows of equal date (it keeps their order only on short arrays). The order it
  leaves them in is the parameter \<open>tie\<close>: for the array of dates, the rank of each position
  among the positions of equal date. Every \<open>tie\<close> gives an ascending rearrangement of the
  rows, and every ascending rearrangement is given by some \<open>tie\<close>.
\<close>

type_synonym sorter = "timestamp list \<Rightarrow> nat \<Rightarrow> nat"

definition sort_values :: "sorter \<Rightarrow> mrow list \<Rightarrow> mrow list" where
  "sort_values tie rs =
     (let dated = filter (\<lambda>r. fecha r \<noteq> None) rs;
          keys = map (\<lambda>r. the (fecha r)) dated
      in map snd (sort_key (\<lambda>(i, r). (the (fecha r), tie keys i)) (enumerate 0 dated))
           @ filter (\<lambda>r. fecha r = None) rs)"

text \<open>
  The left join on \<open>fecha\<close>: every row of the left table, in order, once for each row of
  the reference with the same key (pandas matches a missing key with a missing key), and
  once with a missing \<open>cpi_us\<close> when there is none.
\<close>

definition merge_left :: "mrow list \<Rightarrow> (timestamp option \<times> f64) list \<Rightarrow> mrow list" where
  "merge_left rs ref =
     concat (map (\<lambda>r. case filter (\<lambda>kv. fst kv = fecha r) ref of
                         [] \<Rightarrow> [r\<lparr>cpi_us := NaN\<rparr>]
                       | ms \<Rightarrow> map (\<lambda>kv. r\<lparr>cpi_us := snd kv\<rparr>) ms) rs)"

text \<open>
  \<open>df.merge(cpi_us_df, on="fecha", how="left")\<close>. Before it joins, pandas compares the
  dtypes of the two key columns, unless exactly one of the tables has no rows: a datetime
  key against an \<open>object\<close> key is a \<open>ValueError\<close>. The key of the left table is a
  datetime column; that of the reference is one when it was fetched. So the merge raises
  when the left table has no rows and the fetch had failed.
\<close>

definition merge :: "mrow list \<Rightarrow> reference \<Rightarrow> error + mrow list" where
  "merge rs cpi_us_df =
     (case cpi_us_df of
        Unfetched \<Rightarrow> (if rs = [] then Inl MergeError else Inr (merge_left rs []))
      | Fetched ref \<Rightarrow> Inr (merge_left rs ref))"

text \<open>\<open>keep\<close>: the two required columns, then the optional ones the table has.\<close>

definition keep_of :: "string list \<Rightarrow> string list" where
  "keep_of cols =
     [''fecha'', ''sueldo_nominal_ars'']
       @ filter (\<lambda>c. c \<in> set cols) [''usd_ars'', ''cpi_ar'', ''cpi_us'']"

definition merge_all ::
  "parser \<Rightarrow> sorter \<Rightarrow> datelike frame \<Rightarrow> reference \<Rightarrow> error + mframe" where
  "merge_all p tie sueldos_df cpi_us_df =
     (if ''fecha'' \<notin> set (columns sueldos_df)
         \<or> ''sueldo_nominal_ars'' \<notin> set (columns sueldos_df)
      then Inl SchemaError
      else
        let keep = keep_of (columns sueldos_df);
            df = sort_values tie (map (keep_columns keep) (normalise_fecha p (rows sueldos_df)))
        in if ''cpi_us'' \<notin> set keep
           then (case merge df cpi_us_df of
                   Inl e \<Rightarrow> Inl e
                 | Inr rs \<Rightarrow> Inr \<lparr>columns = keep @ [''cpi_us''], rows = rs\<rparr>)
           else Inr \<lparr>columns = keep, rows = df\<rparr>)"

section \<open>The last common month\<close>

text \<open>\<open>Series.max()\<close> and \<open>Series.min()\<close> of a date column skip NaT; they are NaT when
  nothing is left.\<close>

definition stamps :: "mrow list \<Rightarrow> timestamp list" where
  "stamps rs = concat (map (\<lambda>r. case fecha r of None \<Rightarrow> [] | Some t \<Rightarrow> [t]) rs)"

definition fecha_max :: "mrow list \<Rightarrow> timestamp option" where
  "fecha_max rs = (case stamps rs of [] \<Rightarrow> None | t # ts \<Rightarrow> Some (fold max ts t))"

definition fecha_min :: "mrow list \<Rightarrow> timestamp option" where
  "fecha_min rs = (case stamps rs of [] \<Rightarrow> None | t # ts \<Rightarrow> Some (fold min ts t))"

text \<open>
  Python's \<open>min\<close> over the values of the dict, in insertion order: an item replaces the
  running minimum only when \<open>item < minimum\<close> holds, which it never does against NaT.
  It is called on a non-empty dict only.
\<close>

definition py_min :: "timestamp option \<Rightarrow> timestamp option list \<Rightarrow> timestamp option" where
  "py_min v vs = fold (\<lambda>item m. if nat_lt item m then item else m) vs v"

definition ars_gate :: "mframe \<Rightarrow> bool" where
  "ars_gate df = (''cpi_ar'' \<in> set (columns df) \<and> list_ex (\<lambda>r. notna (cpi_ar r)) (rows df))"

definition usd_gate :: "mframe \<Rightarrow> bool" where
  "usd_gate df =
     (''usd_ars'' \<in> set (columns df) \<and> list_ex (\<lambda>r. notna (usd_ars r)) (rows df) \<and>
      ''cpi_us'' \<in> set (columns df) \<and> list_ex (\<lambda>r. notna (cpi_us r)) (rows df))"

definition ars_rows :: "mrow list \<Rightarrow> mrow list" where
  "ars_rows rs = filter (\<lambda>r. notna (sueldo_nominal_ars r) \<and> notna (cpi_ar r)) rs"

definition usd_rows :: "mrow list \<Rightarrow> mrow list" where
  "usd_rows rs =
     filter (\<lambda>r. notna (sueldo_nominal_ars r) \<and> notna (usd_ars r) \<and> notna (cpi_us r)) rs"

definition compute_last_common_month ::
  "mframe \<Rightarrow> timestamp option \<times> timestamp option \<times> (string \<times> timestamp option) list" where
  "compute_last_common_month df =
     (let fechas =
            (if ars_gate df then [(''ars_real'', fecha_max (ars_rows (rows df)))] else [])
            @ (if usd_gate df then [(''usd_real'', fecha_max (usd_rows (rows df)))] else []);
          last_common = (case map snd fechas of
                           [] \<Rightarrow> fecha_max (rows df)
                         | v # vs \<Rightarrow> py_min v vs);
          first = fecha_min (rows df)
      in (first, last_common, fechas))"

section \<open>Deflation\<close>

text \<open>\<open>deflate(series, cpi, cpi_base)\<close>, for two Series of one index and a scalar.\<close>

definition deflate :: "f64 list \<Rightarrow> f64 list \<Rightarrow> f64 \<Rightarrow> f64 list" where
  "deflate series cpi cpi_base = map (\<lambda>(s, c). fmul s (fdiv cpi_base c)) (zip series cpi)"

text \<open>The rows of the selected range: \<open>df.loc[mask]\<close>.\<close>

definition range_filter :: "mframe \<Rightarrow> timestamp option \<Rightarrow> timestamp option \<Rightarrow> mframe" where
  "range_filter df start_date end_date =
     df\<lparr>rows := filter (\<lambda>r. le_ts start_date (fecha r) \<and> le_ts (fecha r) end_date) (rows df)\<rparr>"

text \<open>
  The level of an index at the base month: the last cell, in the order of the rows, among
  the non-missing cells of the rows up to the base month.
\<close>

definition base_level :: "string \<Rightarrow> (mrow \<Rightarrow> f64) \<Rightarrow> mframe \<Rightarrow> timestamp option \<Rightarrow> f64 option" where
  "base_level name col df_r base_month =
     (if name \<in> set (columns df_r) \<and> list_ex (\<lambda>r. notna (col r)) (rows df_r)
      then (case filter notna (map col (filter (\<lambda>r. le_ts (fecha r) base_month) (rows df_r))) of
              [] \<Rightarrow> None
            | tmp \<Rightarrow> Some (last tmp))
      else None)"

definition cpi_ar_base :: "mframe \<Rightarrow> timestamp option \<Rightarrow> f64 option" where
  "cpi_ar_base = base_level ''cpi_ar'' cpi_ar"

definition cpi_us_base :: "mframe \<Rightarrow> timestamp option \<Rightarrow> f64 option" where
  "cpi_us_base = base_level ''cpi_us'' cpi_us"

record out_row =
  out_fecha :: "timestamp option"
  out_sueldo :: f64
  ars_real :: f64
  usd_nominal :: f64
  usd_real :: f64

definition has_usd_ars :: "mframe \<Rightarrow> bool" where
  "has_usd_ars df_r =
     (''usd_ars'' \<in> set (columns df_r) \<and> list_ex (\<lambda>r. notna (usd_ars r)) (rows df_r))"

definition out_of_row :: "mframe \<Rightarrow> timestamp option \<Rightarrow> mrow \<Rightarrow> out_row" where
  "out_of_row df_r base_month r =
     (let ars = (case cpi_ar_base df_r base_month of
                   None \<Rightarrow> NaN
                 | Some b \<Rightarrow> fmul (sueldo_nominal_ars r) (fdiv b (cpi_ar r)));
          usdn = (if has_usd_ars df_r then fdiv (sueldo_nominal_ars r) (usd_ars r) else NaN);
          usdr = (if has_usd_ars df_r
                  then (case cpi_us_base df_r base_month of
                          None \<Rightarrow> NaN
                        | Some b \<Rightarrow> fmul usdn (fdiv b (cpi_us r)))
                  else NaN)
      in \<lparr>out_fecha = fecha r, out_sueldo = sueldo_nominal_ars r,
          ars_real = ars, usd_nominal = usdn, usd_real = usdr\<rparr>)"

definition out :: "mframe \<Rightarrow> timestamp option \<Rightarrow> out_row list" where
  "out df_r base_month = map (out_of_row df_r base_month) (rows df_r)"

definition series :: "out_row list \<Rightarrow> string list" where
  "series os =
     (if list_ex (\<lambda>r. notna (ars_real r)) os then [''ars_real''] else [])
     @ (if list_ex (\<lambda>r. notna (usd_real r)) os then [''usd_real''] else [])"

section \<open>The script, from the uploaded table to the series\<close>

text \<open>\<open>df = merge_all(input_df, cpi_us_df).sort_values("fecha")\<close>\<close>

definition app_df ::
  "parser \<Rightarrow> sorter \<Rightarrow> datelike frame \<Rightarrow> reference \<Rightarrow> error + mframe" where
  "app_df p tie input_df cpi_us_df =
     (case merge_all p tie input_df cpi_us_df of
        Inl e \<Rightarrow> Inl e
      | Inr df \<Rightarrow> Inr (df\<lparr>rows := sort_values tie (rows df)\<rparr>))"

text \<open>
  The rest of the script. The defaults of the range are \<open>first\<close> and \<open>last_common\<close>;
  \<open>date_input\<close> raises when one of them is NaT. \<open>date_range\<close> is what the widget returns:
  the two dates the user picked, or \<open>None\<close> for anything else, and then the defaults are
  the range. \<open>base_choice\<close> is \<open>None\<close> for "last month of the range", or the month the
  user picked. The result is the table \<open>out\<close> with the list \<open>series\<close>, or the way the
  script ended before.
\<close>

definition app_out ::
  "parser \<Rightarrow> sorter \<Rightarrow> datelike frame \<Rightarrow> reference \<Rightarrow> (timestamp \<times> timestamp) option
     \<Rightarrow> timestamp option \<Rightarrow> error + out_row list \<times> string list" where
  "app_out p tie input_df cpi_us_df date_range base_choice =
     (case app_df p tie input_df cpi_us_df of
        Inl e \<Rightarrow> Inl e
      | Inr df \<Rightarrow>
          (case compute_last_common_month df of
             (first, last_common, por_linea) \<Rightarrow>
               if first = None \<or> last_common = None then Inl DateInputError
               else
                 let (start_date, end_date) =
                       (case date_range of
                          Some (s, e) \<Rightarrow> (Some s, Some e)
                        | None \<Rightarrow> (first, last_common));
                     df_r = range_filter df start_date end_date
                 in if rows df_r = [] then Inl EmptyRangeError
                    else
                      let base_month = (case base_choice of
                                          None \<Rightarrow> fecha_max (rows df_r)
                                        | Some b \<Rightarrow> Some b);
                          os = out df_r base_month
                      in if series os = [] then Inl NoSeriesError else Inr (os, series os)))"

section \<open>Inputs of the scenarios\<close>

text \<open>Scenario A: two months of salary with the local index.\<close>

definition scenario_A :: "datelike frame" where
  "scenario_A =
     \<lparr>columns = [''fecha'', ''sueldo_nominal_ars'', ''cpi_ar''],
      rows = [\<lparr>fecha = Stamp (ymd 2023 1 1), sueldo_nominal_ars = fl 1000, usd_ars = NaN,
                cpi_ar = fl 100, cpi_us = NaN\<rparr>,
              \<lparr>fecha = Stamp (ymd 2023 2 1), sueldo_nominal_ars = fl 1100, usd_ars = NaN,
                cpi_ar = fl 110, cpi_us = NaN\<rparr>]\<rparr>"

text \<open>Scenario B: the same salaries with the exchange rate and the foreign index.\<close>

definition scenario_B :: "datelike frame" where
  "scenario_B =
     \<lparr>columns = [''fecha'', ''sueldo_nominal_ars'', ''usd_ars'', ''cpi_us''],
      rows = [\<lparr>fecha = Stamp (ymd 2023 1 1), sueldo_nominal_ars = fl 1000, usd_ars = fl 200,
                cpi_ar = NaN, cpi_us = fl 100\<rparr>,
              \<lparr>fecha = Stamp (ymd 2023 2 1), sueldo_nominal_ars = fl 1100, usd_ars = fl 220,
                cpi_ar = NaN, cpi_us = fl 105\<rparr>]\<rparr>"

text \<open>The tables of Scenarios A and B after \<open>merge_all\<close> and the sort.\<close>

definition scenario_A_df :: mframe where
  "scenario_A_df =
     \<lparr>columns = [''fecha'', ''sueldo_nominal_ars'', ''cpi_ar'', ''cpi_us''],
      rows = [\<lparr>fecha = Some (ymd 2023 1 1), sueldo_nominal_ars = fl 1000, usd_ars = NaN,
                cpi_ar = fl 100, cpi_us = NaN\<rparr>,
              \<lparr>fecha = Some (ymd 2023 2 1), sueldo_nominal_ars = fl 1100, usd_ars = NaN,
                cpi_ar = fl 110, cpi_us = NaN\<rparr>]\<rparr>"

definition scenario_B_df :: mframe where
  "scenario_B_df =
     \<lparr>columns = [''fecha'', ''sueldo_nominal_ars'', ''usd_ars'', ''cpi_us''],
      rows = [\<lparr>fecha = Some (ymd 2023 1 1), sueldo_nominal_ars = fl 1000, usd_ars = fl 200,
                cpi_ar = NaN, cpi_us = fl 100\<rparr>,
              \<lparr>fecha = Some (ymd 2023 2 1), sueldo_nominal_ars = fl 1100, usd_ars = fl 220,
                cpi_ar = NaN, cpi_us = fl 105\<rparr>]\<rparr>"

text \<open>Scenario C: the local index is zero in the first month.\<close>

definition scenario_C :: "datelike frame" where
  "scenario_C =
     \<lparr>columns = [''fecha'', ''sueldo_nominal_ars'', ''cpi_ar''],
      rows = [\<lparr>fecha = Stamp (ymd 2023 1 1), sueldo_nominal_ars = fl 1000, usd_ars = NaN,
                cpi_ar = fl 0, cpi_us = NaN\<rparr>,
              \<lparr>fecha = Stamp (ymd 2023 2 1), sueldo_nominal_ars = fl 1100, usd_ars = NaN,
                cpi_ar = fl 110, cpi_us = NaN\<rparr>]\<rparr>"

text \<open>A table of the selected range with every column, and a parser that parses nothing.\<close>

definition full_range :: mframe where
  "full_range =
     \<lparr>columns = [''fecha'', ''sueldo_nominal_ars'', ''usd_ars'', ''cpi_ar'', ''cpi_us''],
      rows = [\<lparr>fecha = Some (ymd 2023 1 1), sueldo_nominal_ars = fl 1000, usd_ars = fl 200,
                cpi_ar = fl 100, cpi_us = fl 100\<rparr>,
              \<lparr>fecha = Some (ymd 2023 2 1), sueldo_nominal_ars = fl 1100, usd_ars = fl 220,
                cpi_ar = fl 110, cpi_us = fl 105\<rparr>,
              \<lparr>fecha = Some (ymd 2023 3 1), sueldo_nominal_ars = fl 1200, usd_ars = fl 240,
                cpi_ar = NaN, cpi_us = NaN\<rparr>]\<rparr>"

definition no_parse :: parser where
  "no_parse s t = None"

text \<open>A sort that keeps rows of equal date in their order.\<close>

definition keep_order :: sorter where
  "keep_order ks i = i"

text \<open>A table of the selected range where the indexes are zero in one row and missing in
  another.\<close>

definition sparse_range :: mframe where
  "sparse_range =
     \<lparr>columns = [''fecha'', ''sueldo_nominal_ars'', ''usd_ars'', ''cpi_ar'', ''cpi_us''],
      rows = [\<lparr>fecha = Some (ymd 2023 1 1), sueldo_nominal_ars = fl 1000, usd_ars = fl 200,
                cpi_ar = fl 0, cpi_us = fl 0\<rparr>,
              \<lparr>fecha = Some (ymd 2023 2 1), sueldo_nominal_ars = fl 1100, usd_ars = fl 220,
                cpi_ar = fl 110, cpi_us = fl 105\<rparr>,
              \<lparr>fecha = Some (ymd 2023 3 1), sueldo_nominal_ars = fl 1200, usd_ars = fl 240,
                cpi_ar = NaN, cpi_us = NaN\<rparr>]\<rparr>"

text \<open>A column of dates as uploaded, and a parser that knows one of its texts.\<close>

definition demo_parser :: parser where
  "demo_parser s t = (if t = ''2023-01-15'' then Some (2023, 1, 15, 0) else None)"

definition demo_dates :: "datelike list" where
  "demo_dates = [RawText ''2023-01-15'', Stamp (2024, 3, 17, 5), NaT, RawText ''enero'']"

text \<open>An uploaded table with the two required columns and no rows.\<close>

definition header_only :: "datelike frame" where
  "header_only = \<lparr>columns = [''fecha'', ''sueldo_nominal_ars''], rows = []\<rparr>"

text \<open>An uploaded table without the salary column.\<close>

definition no_salary :: "datelike frame" where
  "no_salary =
     \<lparr>columns = [''fecha'', ''cpi_ar''],
      rows = [\<lparr>fecha = Stamp (ymd 2023 1 1), sueldo_nominal_ars = NaN, usd_ars = NaN,
                cpi_ar = fl 100, cpi_us = NaN\<rparr>]\<rparr>"

text \<open>The rows of the reference that the join sees.\<close>

definition ref_rows :: "reference \<Rightarrow> (timestamp option \<times> f64) list" where
  "ref_rows cpi_us_df = (case cpi_us_df of Unfetched \<Rightarrow> [] | Fetched ref \<Rightarrow> ref)"

text \<open>A reference that was fetched, with the months 2023-01 and 2023-03.\<close>

definition reference_2023 :: reference where
  "reference_2023 = Fetched [(Some (ymd 2023 1 1), fl 300), (Some (ymd 2023 3 1), fl 303)]"

text \<open>
  An uploaded table, later month first, that has its own column \<open>cpi_us\<close>, with a missing
  cell.
\<close>

definition own_cpi_us :: "datelike frame" where
  "own_cpi_us =
     \<lparr>columns = [''fecha'', ''sueldo_nominal_ars'', ''usd_ars'', ''cpi_us''],
      rows = [\<lparr>fecha = Stamp (ymd 2023 2 9), sueldo_nominal_ars = fl 1100, usd_ars = fl 220,
                cpi_ar = NaN, cpi_us = NaN\<rparr>,
              \<lparr>fecha = Stamp (ymd 2023 1 20), sueldo_nominal_ars = fl 1000, usd_ars = fl 200,
                cpi_ar = NaN, cpi_us = fl 100\<rparr>]\<rparr>"

text \<open>An uploaded table with every column, whose column \<open>cpi_us\<close> has no value.\<close>

definition blank_cpi_us :: "datelike frame" where
  "blank_cpi_us =
     \<lparr>columns = [''fecha'', ''sueldo_nominal_ars'', ''usd_ars'', ''cpi_ar'', ''cpi_us''],
      rows = [\<lparr>fecha = Stamp (ymd 2023 1 1), sueldo_nominal_ars = fl 1000, usd_ars = fl 200,
                cpi_ar = fl 100, cpi_us = NaN\<rparr>,
              \<lparr>fecha = Stamp (ymd 2023 2 1), sueldo_nominal_ars = fl 1100, usd_ars = fl 220,
                cpi_ar = fl 110, cpi_us = NaN\<rparr>]\<rparr>"

section \<open>Evaluation\<close>

lemma halvings_numeral:
  "halvings (numeral k) x = (if x < 2 then 0 else 1 + halvings (pred_numeral k) (x / 2))"
  by (simp add: numeral_eq_Suc)

lemma doublings_numeral:
  "doublings (numeral k) x = (if 1 \<le> x then 0 else doublings (pred_numeral k) (2 * x) - 1)"
  by (simp add: numeral_eq_Suc)

lemmas f64_eval = mk_f64_def round_f64_def binade_def pow2_def round_half_even_def Let_def
  halvings_numeral doublings_numeral

lemmas df_eval = app_df_def merge_all_def merge_def keep_of_def normalise_fecha_def set_fecha_def
  to_month_start_def to_datetime_def ymd_def keep_columns_def sort_values_def merge_left_def
  Let_def

lemmas range_eval = compute_last_common_month_def ars_gate_def usd_gate_def ars_rows_def
  usd_rows_def py_min_def nat_lt_def fecha_max_def fecha_min_def stamps_def notna_def

lemmas out_eval = range_filter_def le_ts_def fecha_max_def stamps_def out_def out_of_row_def
  cpi_ar_base_def cpi_us_base_def base_level_def has_usd_ars_def notna_def series_def

lemmas app_eval = app_out_def df_eval range_eval out_eval

section \<open>Missing values in the arithmetic\<close>

lemma fdiv_NaN_right [simp]: "fdiv x NaN = NaN"
  by (cases x) simp_all

lemma fmul_NaN_right [simp]: "fmul x NaN = NaN"
  by (cases x) simp_all

lemma fdiv_by_zero:
  "is_zero c \<Longrightarrow> b \<noteq> NaN \<Longrightarrow>
     fdiv b c = (if is_zero b then NaN else Infty (case fdiv b c of Infty s \<Rightarrow> s | _ \<Rightarrow> False))"
  by (cases b; cases c) (auto simp: is_zero_def)

lemma fmul_infinite:
  "fmul s (Infty u) = (if s = NaN \<or> is_zero s then NaN
                       else Infty (case fmul s (Infty u) of Infty t \<Rightarrow> t | _ \<Rightarrow> False))"
  by (cases s) (auto simp: is_zero_def)

lemma deflate_by_zero:
  assumes "is_zero c" and "b \<noteq> NaN"
  shows "(fmul s (fdiv b c) = NaN) = (is_zero b \<or> is_zero s \<or> s = NaN)"
    and "fmul s (fdiv b c) \<noteq> NaN \<Longrightarrow> \<exists>sg. fmul s (fdiv b c) = Infty sg"
proof -
  show "(fmul s (fdiv b c) = NaN) = (is_zero b \<or> is_zero s \<or> s = NaN)"
    using assms by (cases b; cases c; cases s) (auto simp: is_zero_def)
  show "fmul s (fdiv b c) \<noteq> NaN \<Longrightarrow> \<exists>sg. fmul s (fdiv b c) = Infty sg"
    using assms by (cases b; cases c; cases s) (auto simp: is_zero_def split: if_splits)
qed

section \<open>The derived series\<close>

lemma out_nth:
  "i < length (rows df_r) \<Longrightarrow>
     out df_r base_month ! i = out_of_row df_r base_month (rows df_r ! i)"
  by (simp add: out_def)

lemma no_usd_ars_value:
  "\<not> list_ex (\<lambda>r. notna (usd_ars r)) rs \<Longrightarrow> r \<in> set rs \<Longrightarrow> usd_ars r = NaN"
  by (auto simp: list_ex_iff notna_def)

lemma base_level_notna: "base_level name col df_r base_month = Some b \<Longrightarrow> b \<noteq> NaN"
proof -
  assume a: "base_level name col df_r base_month = Some b"
  let ?tmp = "filter notna (map col (filter (\<lambda>r. le_ts (fecha r) base_month) (rows df_r)))"
  from a have ne: "?tmp \<noteq> []" and b: "b = last ?tmp"
    by (auto simp: base_level_def split: if_splits list.splits)
  from ne have "last ?tmp \<in> set ?tmp" by (rule last_in_set)
  then show ?thesis using b by (auto simp: notna_def)
qed

text \<open>
  C1. For every row of the table of the selected range: when the base level of the local
  index is resolved, the real local value is the salary times (base level / local index of
  the row); when the table has the exchange rate, the nominal foreign value is the salary
  divided by the rate of the row; when the base level of the foreign index is resolved, the
  real foreign value is the nominal foreign value times (base level / foreign index of the
  row). The script, run on the table of Scenario A with the base 2023-02, gives the real
  local values 1100 and 1100, and on that of Scenario B the nominal foreign values 5 and 5
  and the real foreign values 5.25 and 5: for every parser and every sort, for the default
  range and for the picked range 2023-01 to 2023-02, for the base as the last month of the
  range and as the picked month; in Scenario A the reference has no rows, fetched or not.
\<close>

theorem derived_series_formulas:
  "(i < length (rows df_r) \<longrightarrow>
      (\<forall>b. cpi_ar_base df_r base_month = Some b \<longrightarrow>
         ars_real (out df_r base_month ! i)
           = fmul (sueldo_nominal_ars (rows df_r ! i)) (fdiv b (cpi_ar (rows df_r ! i)))) \<and>
      (''usd_ars'' \<in> set (columns df_r) \<longrightarrow>
         usd_nominal (out df_r base_month ! i)
           = fdiv (sueldo_nominal_ars (rows df_r ! i)) (usd_ars (rows df_r ! i))) \<and>
      (\<forall>b. cpi_us_base df_r base_month = Some b \<longrightarrow>
         usd_real (out df_r base_month ! i)
           = fmul (usd_nominal (out df_r base_month ! i)) (fdiv b (cpi_us (rows df_r ! i)))))
   \<and> ((cpi_us_df = Unfetched \<or> cpi_us_df = Fetched []) \<longrightarrow>
       (date_range = None \<or> date_range = Some (ymd 2023 1 1, ymd 2023 2 1)) \<longrightarrow>
       (base_choice = None \<or> base_choice = Some (ymd 2023 2 1)) \<longrightarrow>
         app_out p tie scenario_A cpi_us_df date_range base_choice
           = Inr ([\<lparr>out_fecha = Some (ymd 2023 1 1), out_sueldo = fl 1000, ars_real = fl 1100,
                     usd_nominal = NaN, usd_real = NaN\<rparr>,
                   \<lparr>out_fecha = Some (ymd 2023 2 1), out_sueldo = fl 1100, ars_real = fl 1100,
                     usd_nominal = NaN, usd_real = NaN\<rparr>], [''ars_real''])
         \<and> app_out p tie scenario_B ref date_range base_choice
           = Inr ([\<lparr>out_fecha = Some (ymd 2023 1 1), out_sueldo = fl 1000, ars_real = NaN,
                     usd_nominal = fl 5, usd_real = fl (21 / 4)\<rparr>,
                   \<lparr>out_fecha = Some (ymd 2023 2 1), out_sueldo = fl 1100, ars_real = NaN,
                     usd_nominal = fl 5, usd_real = fl 5\<rparr>], [''usd_real'']))"
proof (intro conjI impI allI)
  fix b
  assume i: "i < length (rows df_r)"
  show "ars_real (out df_r base_month ! i)
          = fmul (sueldo_nominal_ars (rows df_r ! i)) (fdiv b (cpi_ar (rows df_r ! i)))"
    if "cpi_ar_base df_r base_month = Some b"
    using i that by (simp add: out_nth out_of_row_def Let_def)
  show "usd_real (out df_r base_month ! i)
          = fmul (usd_nominal (out df_r base_month ! i)) (fdiv b (cpi_us (rows df_r ! i)))"
    if "cpi_us_base df_r base_month = Some b"
    using i that by (simp add: out_nth out_of_row_def Let_def)
next
  assume i: "i < length (rows df_r)" and c: "''usd_ars'' \<in> set (columns df_r)"
  show "usd_nominal (out df_r base_month ! i)
          = fdiv (sueldo_nominal_ars (rows df_r ! i)) (usd_ars (rows df_r ! i))"
    using i c no_usd_ars_value[of "rows df_r" "rows df_r ! i"]
    by (auto simp: out_nth out_of_row_def Let_def has_usd_ars_def)
next
  assume r: "date_range = None \<or> date_range = Some (ymd 2023 1 1, ymd 2023 2 1)"
    and b: "base_choice = None \<or> base_choice = Some (ymd 2023 2 1)"
  show "app_out p tie scenario_A cpi_us_df date_range base_choice
           = Inr ([\<lparr>out_fecha = Some (ymd 2023 1 1), out_sueldo = fl 1000, ars_real = fl 1100,
                     usd_nominal = NaN, usd_real = NaN\<rparr>,
                   \<lparr>out_fecha = Some (ymd 2023 2 1), out_sueldo = fl 1100, ars_real = fl 1100,
                     usd_nominal = NaN, usd_real = NaN\<rparr>], [''ars_real''])"
    if "cpi_us_df = Unfetched \<or> cpi_us_df = Fetched []"
  proof -
    have "app_df p tie scenario_A cpi_us_df = Inr scenario_A_df"
      using that by (auto simp: scenario_A_def scenario_A_df_def df_eval)
    then show ?thesis
      using r b by (auto simp: app_out_def scenario_A_df_def range_eval out_eval ymd_def f64_eval)
  qed
  have "app_df p tie scenario_B ref = Inr scenario_B_df"
    by (simp add: scenario_B_def scenario_B_df_def df_eval)
  then show "app_out p tie scenario_B ref date_range base_choice
           = Inr ([\<lparr>out_fecha = Some (ymd 2023 1 1), out_sueldo = fl 1000, ars_real = NaN,
                     usd_nominal = fl 5, usd_real = fl (21 / 4)\<rparr>,
                   \<lparr>out_fecha = Some (ymd 2023 2 1), out_sueldo = fl 1100, ars_real = NaN,
                     usd_nominal = fl 5, usd_real = fl 5\<rparr>], [''usd_real''])"
    using r b by (auto simp: app_out_def scenario_B_df_def range_eval out_eval ymd_def f64_eval)
qed

theorem derived_series_formulas_witness:
  "(0::nat) < length (rows full_range)
   \<and> cpi_ar_base full_range (Some (ymd 2023 2 1)) = Some (fl 110)
   \<and> ''usd_ars'' \<in> set (columns full_range)
   \<and> cpi_us_base full_range (Some (ymd 2023 2 1)) = Some (fl 105)
   \<and> ars_real (out full_range (Some (ymd 2023 2 1)) ! 0) = fmul (fl 1000) (fdiv (fl 110) (fl 100))
   \<and> usd_nominal (out full_range (Some (ymd 2023 2 1)) ! 0) = fdiv (fl 1000) (fl 200)
   \<and> usd_real (out full_range (Some (ymd 2023 2 1)) ! 0)
       = fmul (usd_nominal (out full_range (Some (ymd 2023 2 1)) ! 0)) (fdiv (fl 105) (fl 100))
   \<and> app_out no_parse keep_order scenario_A Unfetched None None
       = Inr ([\<lparr>out_fecha = Some (ymd 2023 1 1), out_sueldo = fl 1000, ars_real = fl 1100,
                 usd_nominal = NaN, usd_real = NaN\<rparr>,
               \<lparr>out_fecha = Some (ymd 2023 2 1), out_sueldo = fl 1100, ars_real = fl 1100,
                 usd_nominal = NaN, usd_real = NaN\<rparr>], [''ars_real''])
   \<and> app_out no_parse keep_order scenario_B Unfetched None None
       = Inr ([\<lparr>out_fecha = Some (ymd 2023 1 1), out_sueldo = fl 1000, ars_real = NaN,
                 usd_nominal = fl 5, usd_real = fl (21 / 4)\<rparr>,
               \<lparr>out_fecha = Some (ymd 2023 2 1), out_sueldo = fl 1100, ars_real = NaN,
                 usd_nominal = fl 5, usd_real = fl 5\<rparr>], [''usd_real''])"
proof -
  have i: "(0::nat) < length (rows full_range)"
    by (simp add: full_range_def)
  have a: "cpi_ar_base full_range (Some (ymd 2023 2 1)) = Some (fl 110)"
    by (simp add: full_range_def cpi_ar_base_def base_level_def le_ts_def ymd_def notna_def)
  have c: "''usd_ars'' \<in> set (columns full_range)"
    by (simp add: full_range_def)
  have u: "cpi_us_base full_range (Some (ymd 2023 2 1)) = Some (fl 105)"
    by (simp add: full_range_def cpi_us_base_def base_level_def le_ts_def ymd_def notna_def)
  have r: "rows full_range ! 0 = \<lparr>fecha = Some (ymd 2023 1 1), sueldo_nominal_ars = fl 1000,
             usd_ars = fl 200, cpi_ar = fl 100, cpi_us = fl 100\<rparr>"
    by (simp add: full_range_def)
  show ?thesis
    using derived_series_formulas [of 0 full_range "Some (ymd 2023 2 1)" Unfetched None None
        no_parse keep_order Unfetched] i a c u r
    by simp
qed

lemma deflate_nth:
  "i < length ser \<Longrightarrow> i < length cpi \<Longrightarrow>
     deflate ser cpi cpi_base ! i = fmul (ser ! i) (fdiv cpi_base (cpi ! i))"
  by (simp add: deflate_def)

text \<open>
  C2, as amended. The table \<open>out\<close> has a row for every row of the selected range, so
  nothing is raised. For every row whose price index is missing, the deflated value is
  missing, in \<open>out\<close> and in \<open>deflate\<close> alike. When no base level is resolved for a series,
  its value is missing in every row. For a row whose price index is zero and a resolved
  base level, the deflated value is missing only when the base level or the deflated
  amount is zero or the amount is missing; otherwise it is an infinity, which is not a
  missing value. It is the same in \<open>deflate\<close>, where a missing base level gives a missing
  value.
\<close>

theorem missing_index_gives_missing_value:
  "length (out df_r base_month) = length (rows df_r) \<and>
   (i < length (rows df_r) \<longrightarrow>
      (cpi_ar (rows df_r ! i) = NaN \<longrightarrow> ars_real (out df_r base_month ! i) = NaN) \<and>
      (cpi_us (rows df_r ! i) = NaN \<longrightarrow> usd_real (out df_r base_month ! i) = NaN) \<and>
      (cpi_ar_base df_r base_month = None \<longrightarrow> ars_real (out df_r base_month ! i) = NaN) \<and>
      (cpi_us_base df_r base_month = None \<longrightarrow> usd_real (out df_r base_month ! i) = NaN) \<and>
      (\<forall>b. is_zero (cpi_ar (rows df_r ! i)) \<longrightarrow> cpi_ar_base df_r base_month = Some b \<longrightarrow>
         (ars_real (out df_r base_month ! i) = NaN)
           = (is_zero b \<or> is_zero (sueldo_nominal_ars (rows df_r ! i))
              \<or> sueldo_nominal_ars (rows df_r ! i) = NaN) \<and>
         (ars_real (out df_r base_month ! i) \<noteq> NaN \<longrightarrow>
            (\<exists>sg. ars_real (out df_r base_month ! i) = Infty sg))) \<and>
      (\<forall>b. is_zero (cpi_us (rows df_r ! i)) \<longrightarrow> cpi_us_base df_r base_month = Some b \<longrightarrow>
         (usd_real (out df_r base_month ! i) = NaN)
           = (is_zero b \<or> is_zero (usd_nominal (out df_r base_month ! i))
              \<or> usd_nominal (out df_r base_month ! i) = NaN) \<and>
         (usd_real (out df_r base_month ! i) \<noteq> NaN \<longrightarrow>
            (\<exists>sg. usd_real (out df_r base_month ! i) = Infty sg)))) \<and>
   (i < length ser \<longrightarrow> i < length cpi \<longrightarrow>
      (cpi ! i = NaN \<or> cpi_base = NaN \<longrightarrow> deflate ser cpi cpi_base ! i = NaN) \<and>
      (is_zero (cpi ! i) \<longrightarrow> cpi_base \<noteq> NaN \<longrightarrow>
         (deflate ser cpi cpi_base ! i = NaN)
           = (is_zero cpi_base \<or> is_zero (ser ! i) \<or> ser ! i = NaN) \<and>
         (deflate ser cpi cpi_base ! i \<noteq> NaN \<longrightarrow>
            (\<exists>sg. deflate ser cpi cpi_base ! i = Infty sg))))"
proof (intro conjI impI allI)
  show "length (out df_r base_month) = length (rows df_r)"
    by (simp add: out_def)
next
  assume "i < length ser" "i < length cpi" "cpi ! i = NaN \<or> cpi_base = NaN"
  then show "deflate ser cpi cpi_base ! i = NaN"
    by (auto simp: deflate_nth)
next
  assume i: "i < length ser" "i < length cpi" and z: "is_zero (cpi ! i)" and nb: "cpi_base \<noteq> NaN"
  have e: "deflate ser cpi cpi_base ! i = fmul (ser ! i) (fdiv cpi_base (cpi ! i))"
    using i by (rule deflate_nth)
  show "(deflate ser cpi cpi_base ! i = NaN)
          = (is_zero cpi_base \<or> is_zero (ser ! i) \<or> ser ! i = NaN)"
    unfolding e by (rule deflate_by_zero(1)[OF z nb])
  show "\<exists>sg. deflate ser cpi cpi_base ! i = Infty sg"
    if "deflate ser cpi cpi_base ! i \<noteq> NaN"
    using that unfolding e by (rule deflate_by_zero(2)[OF z nb])
next
  assume i: "i < length (rows df_r)"
  show "ars_real (out df_r base_month ! i) = NaN" if "cpi_ar (rows df_r ! i) = NaN"
    using i that by (simp add: out_nth out_of_row_def Let_def split: option.splits)
  show "usd_real (out df_r base_month ! i) = NaN" if "cpi_us (rows df_r ! i) = NaN"
    using i that by (simp add: out_nth out_of_row_def Let_def split: option.splits)
  show "ars_real (out df_r base_month ! i) = NaN" if "cpi_ar_base df_r base_month = None"
    using i that by (simp add: out_nth out_of_row_def Let_def)
  show "usd_real (out df_r base_month ! i) = NaN" if "cpi_us_base df_r base_month = None"
    using i that by (simp add: out_nth out_of_row_def Let_def)
next
  fix b
  assume i: "i < length (rows df_r)" and z: "is_zero (cpi_ar (rows df_r ! i))"
    and b: "cpi_ar_base df_r base_month = Some b"
  have nb: "b \<noteq> NaN" using b base_level_notna by (simp add: cpi_ar_base_def)
  have e: "ars_real (out df_r base_month ! i)
             = fmul (sueldo_nominal_ars (rows df_r ! i)) (fdiv b (cpi_ar (rows df_r ! i)))"
    using i b by (simp add: out_nth out_of_row_def Let_def)
  show "(ars_real (out df_r base_month ! i) = NaN)
           = (is_zero b \<or> is_zero (sueldo_nominal_ars (rows df_r ! i))
              \<or> sueldo_nominal_ars (rows df_r ! i) = NaN)"
    unfolding e by (rule deflate_by_zero(1)[OF z nb])
  show "\<exists>sg. ars_real (out df_r base_month ! i) = Infty sg"
    if "ars_real (out df_r base_month ! i) \<noteq> NaN"
    using that unfolding e by (rule deflate_by_zero(2)[OF z nb])
next
  fix b
  assume i: "i < length (rows df_r)" and z: "is_zero (cpi_us (rows df_r ! i))"
    and b: "cpi_us_base df_r base_month = Some b"
  have nb: "b \<noteq> NaN" using b base_level_notna by (simp add: cpi_us_base_def)
  have e: "usd_real (out df_r base_month ! i)
             = fmul (usd_nominal (out df_r base_month ! i)) (fdiv b (cpi_us (rows df_r ! i)))"
    using i b by (simp add: out_nth out_of_row_def Let_def)
  show "(usd_real (out df_r base_month ! i) = NaN)
           = (is_zero b \<or> is_zero (usd_nominal (out df_r base_month ! i))
              \<or> usd_nominal (out df_r base_month ! i) = NaN)"
    unfolding e by (rule deflate_by_zero(1)[OF z nb])
  show "\<exists>sg. usd_real (out df_r base_month ! i) = Infty sg"
    if "usd_real (out df_r base_month ! i) \<noteq> NaN"
    using that unfolding e by (rule deflate_by_zero(2)[OF z nb])
qed

text \<open>
  C2 as stated fails: in Scenario C the local index of the first month is zero, and the
  real local value of that month is \<open>+inf\<close>, not a missing value; the series is listed.
\<close>

theorem zero_index_counterexample:
  "cpi_ar (rows scenario_C ! 0) = fl 0 \<and>
   app_out no_parse keep_order scenario_C Unfetched None None
     = Inr ([\<lparr>out_fecha = Some (ymd 2023 1 1), out_sueldo = fl 1000, ars_real = Infty False,
               usd_nominal = NaN, usd_real = NaN\<rparr>,
             \<lparr>out_fecha = Some (ymd 2023 2 1), out_sueldo = fl 1100, ars_real = fl 1100,
               usd_nominal = NaN, usd_real = NaN\<rparr>], [''ars_real'']) \<and>
   notna (Infty False)"
  by (simp add: scenario_C_def keep_order_def app_eval f64_eval)

theorem missing_index_gives_missing_value_witness:
  "(2::nat) < length (rows sparse_range) \<and> cpi_ar (rows sparse_range ! 2) = NaN \<and>
   cpi_us (rows sparse_range ! 2) = NaN \<and>
   ars_real (out sparse_range (Some (ymd 2023 3 1)) ! 2) = NaN \<and>
   usd_real (out sparse_range (Some (ymd 2023 3 1)) ! 2) = NaN \<and>
   is_zero (cpi_ar (rows sparse_range ! 0)) \<and> is_zero (cpi_us (rows sparse_range ! 0)) \<and>
   cpi_ar_base sparse_range (Some (ymd 2023 3 1)) = Some (fl 110) \<and>
   cpi_us_base sparse_range (Some (ymd 2023 3 1)) = Some (fl 105) \<and>
   ars_real (out sparse_range (Some (ymd 2023 3 1)) ! 0) \<noteq> NaN \<and>
   usd_real (out sparse_range (Some (ymd 2023 3 1)) ! 0) \<noteq> NaN \<and>
   (\<exists>sg. ars_real (out sparse_range (Some (ymd 2023 3 1)) ! 0) = Infty sg) \<and>
   (\<exists>sg. usd_real (out sparse_range (Some (ymd 2023 3 1)) ! 0) = Infty sg) \<and>
   cpi_ar_base sparse_range (Some (ymd 2022 12 1)) = None \<and>
   cpi_us_base sparse_range (Some (ymd 2022 12 1)) = None \<and>
   ars_real (out sparse_range (Some (ymd 2022 12 1)) ! 0) = NaN \<and>
   usd_real (out sparse_range (Some (ymd 2022 12 1)) ! 0) = NaN \<and>
   deflate [fl 1000, fl 1100, fl 1200] [fl 0, fl 110, NaN] (fl 110) ! 2 = NaN \<and>
   deflate [fl 1000, fl 1100, fl 1200] [fl 0, fl 110, NaN] (fl 110) ! 0 \<noteq> NaN \<and>
   (\<exists>sg. deflate [fl 1000, fl 1100, fl 1200] [fl 0, fl 110, NaN] (fl 110) ! 0 = Infty sg)"
proof -
  let ?b = "Some (ymd 2023 3 1)"
  let ?e = "Some (ymd 2022 12 1)"
  let ?ser = "[fl 1000, fl 1100, fl 1200]"
  let ?cpi = "[fl 0, fl 110, NaN]"
  have l: "(2::nat) < length (rows sparse_range)" "(0::nat) < length (rows sparse_range)"
    by (simp_all add: sparse_range_def)
  have r2: "cpi_ar (rows sparse_range ! 2) = NaN" "cpi_us (rows sparse_range ! 2) = NaN"
    by (simp_all add: sparse_range_def)
  have r0: "is_zero (cpi_ar (rows sparse_range ! 0))" "is_zero (cpi_us (rows sparse_range ! 0))"
    "\<not> is_zero (sueldo_nominal_ars (rows sparse_range ! 0))"
    "sueldo_nominal_ars (rows sparse_range ! 0) \<noteq> NaN"
    by (simp_all add: sparse_range_def is_zero_def)
  have a: "cpi_ar_base sparse_range ?b = Some (fl 110)"
    by (simp add: sparse_range_def cpi_ar_base_def base_level_def le_ts_def ymd_def notna_def)
  have u: "cpi_us_base sparse_range ?b = Some (fl 105)"
    by (simp add: sparse_range_def cpi_us_base_def base_level_def le_ts_def ymd_def notna_def)
  have n: "usd_nominal (out sparse_range ?b ! 0) = fl 5"
    by (simp add: sparse_range_def out_def out_of_row_def has_usd_ars_def notna_def f64_eval)
  have ea: "cpi_ar_base sparse_range ?e = None"
    by (simp add: sparse_range_def cpi_ar_base_def base_level_def le_ts_def ymd_def notna_def)
  have eu: "cpi_us_base sparse_range ?e = None"
    by (simp add: sparse_range_def cpi_us_base_def base_level_def le_ts_def ymd_def notna_def)
  have z: "\<not> is_zero (fl 110)" "\<not> is_zero (fl 105)" "\<not> is_zero (fl 5)" "is_zero (fl 0)"
    "\<not> is_zero (fl 1000)"
    by (simp_all add: is_zero_def)
  note t2 = missing_index_gives_missing_value [of sparse_range ?b 2 ?ser ?cpi "fl 110"]
  note t0 = missing_index_gives_missing_value [of sparse_range ?b 0 ?ser ?cpi "fl 110"]
  note te = missing_index_gives_missing_value [of sparse_range ?e 0 ?ser ?cpi "fl 110"]
  show ?thesis
    using t2 t0 te l r2 r0 a u n ea eu z by simp
qed

section \<open>Normalising dates\<close>

lemma month_start_idem [simp]: "month_start (month_start t) = month_start t"
  by (cases t) simp

lemma to_datetime_as_datelike [simp]: "to_datetime p (map as_datelike xs) = xs"
  by (simp add: to_datetime_def as_datelike_def map_idI split: option.splits)

lemma length_to_month_start [simp]: "length (to_month_start p s) = length s"
  by (simp add: to_month_start_def to_datetime_def)

text \<open>
  C7. Normalising the dates is idempotent: \<open>to_month_start\<close> of a Series it has produced
  gives the same Series. A date that parses is moved to the first day of its month, at
  midnight, and one that does not parse becomes NaT.
\<close>

theorem to_month_start_idempotent:
  "to_month_start p (map as_datelike (to_month_start p s)) = to_month_start p s \<and>
   length (to_month_start p s) = length s \<and>
   (i < length s \<longrightarrow>
      (to_datetime p s ! i = Some (y, m, d, n) \<longrightarrow> to_month_start p s ! i = Some (y, m, 1, 0)) \<and>
      (to_datetime p s ! i = None \<longrightarrow> to_month_start p s ! i = None))"
proof (intro conjI impI)
  have "to_month_start p (map as_datelike (to_month_start p s))
          = map (map_option month_start) (to_month_start p s)"
    unfolding to_month_start_def[of p "map as_datelike _"] by simp
  also have "\<dots> = to_month_start p s"
    by (simp add: to_month_start_def option.map_comp comp_def)
  finally show "to_month_start p (map as_datelike (to_month_start p s)) = to_month_start p s" .
next
  show "length (to_month_start p s) = length s" by simp
next
  assume "i < length s" "to_datetime p s ! i = Some (y, m, d, n)"
  then show "to_month_start p s ! i = Some (y, m, 1, 0)"
    by (simp add: to_month_start_def to_datetime_def)
next
  assume "i < length s" "to_datetime p s ! i = None"
  then show "to_month_start p s ! i = None"
    by (simp add: to_month_start_def to_datetime_def)
qed

theorem to_month_start_idempotent_witness:
  "to_month_start demo_parser demo_dates = [Some (2023, 1, 1, 0), Some (2024, 3, 1, 0), None, None] \<and>
   to_month_start demo_parser (map as_datelike (to_month_start demo_parser demo_dates))
     = [Some (2023, 1, 1, 0), Some (2024, 3, 1, 0), None, None] \<and>
   (0::nat) < length demo_dates \<and> (3::nat) < length demo_dates \<and>
   to_datetime demo_parser demo_dates ! 0 = Some (2023, 1, 15, 0) \<and>
   to_datetime demo_parser demo_dates ! 3 = None \<and>
   to_month_start demo_parser demo_dates ! 0 = Some (2023, 1, 1, 0) \<and>
   to_month_start demo_parser demo_dates ! 3 = None"
proof -
  have e: "to_month_start demo_parser demo_dates
             = [Some (2023, 1, 1, 0), Some (2024, 3, 1, 0), None, None]"
    by (simp add: to_month_start_def to_datetime_def demo_parser_def demo_dates_def)
  have l: "(0::nat) < length demo_dates" "(3::nat) < length demo_dates"
    by (simp_all add: demo_dates_def)
  have d: "to_datetime demo_parser demo_dates ! 0 = Some (2023, 1, 15, 0)"
    "to_datetime demo_parser demo_dates ! 3 = None"
    by (simp_all add: to_datetime_def demo_parser_def demo_dates_def)
  show ?thesis
    using to_month_start_idempotent [of demo_parser demo_dates 0 2023 1 15 0]
      to_month_start_idempotent [of demo_parser demo_dates 3] e l d
    by simp
qed

section \<open>Merging\<close>

lemma length_sort_values [simp]: "length (sort_values tie rs) = length rs"
proof -
  have "length (filter (\<lambda>r. fecha r \<noteq> None) rs) + length (filter (\<lambda>r. fecha r = None) rs)
          = length rs"
    by (induction rs) simp_all
  then show ?thesis
    by (simp add: sort_values_def Let_def)
qed

lemma length_normalise_fecha [simp]: "length (normalise_fecha p rs) = length rs"
  by (simp add: normalise_fecha_def set_fecha_def)

lemma prepared_empty:
  "(sort_values tie (map (keep_columns k) (normalise_fecha p rs)) = []) = (rs = [])"
proof -
  have "length (sort_values tie (map (keep_columns k) (normalise_fecha p rs))) = length rs"
    by simp
  then show ?thesis
    by (metis length_0_conv)
qed

text \<open>
  C6. \<open>merge_all\<close> stops with the schema error exactly when the column \<open>fecha\<close> or the
  column \<open>sueldo_nominal_ars\<close> is not among the columns of the uploaded table, and the
  error stops the whole script. With both columns, \<open>merge_all\<close> returns a table, but for
  one case: the table has no rows and no column \<open>cpi_us\<close>, and the reference was not
  fetched; there the merge raises.
\<close>

theorem merge_all_schema_error:
  "(merge_all p tie sueldos_df cpi_us_df = Inl SchemaError)
     = (''fecha'' \<notin> set (columns sueldos_df)
        \<or> ''sueldo_nominal_ars'' \<notin> set (columns sueldos_df)) \<and>
   (merge_all p tie sueldos_df cpi_us_df = Inl SchemaError \<longrightarrow>
      app_df p tie sueldos_df cpi_us_df = Inl SchemaError \<and>
      app_out p tie sueldos_df cpi_us_df date_range base_choice = Inl SchemaError) \<and>
   (isl (merge_all p tie sueldos_df cpi_us_df))
     = (''fecha'' \<notin> set (columns sueldos_df)
        \<or> ''sueldo_nominal_ars'' \<notin> set (columns sueldos_df)
        \<or> ''cpi_us'' \<notin> set (columns sueldos_df) \<and> rows sueldos_df = []
            \<and> cpi_us_df = Unfetched) \<and>
   (merge_all p tie sueldos_df cpi_us_df = Inl MergeError)
     = (''fecha'' \<in> set (columns sueldos_df)
        \<and> ''sueldo_nominal_ars'' \<in> set (columns sueldos_df)
        \<and> ''cpi_us'' \<notin> set (columns sueldos_df) \<and> rows sueldos_df = []
        \<and> cpi_us_df = Unfetched)"
proof -
  note e = prepared_empty [of tie _ p "rows sueldos_df"]
  have k: "(''cpi_us'' \<in> set (keep_of (columns sueldos_df)))
             = (''cpi_us'' \<in> set (columns sueldos_df))"
    by (auto simp: keep_of_def)
  show ?thesis
    by (cases cpi_us_df)
      (auto simp: merge_all_def merge_def Let_def app_df_def app_out_def e k)
qed

text \<open>
  The case where \<open>merge_all\<close> stops with both columns there: a table with the header
  \<open>fecha,sueldo_nominal_ars\<close> and no rows, when the fetch of the reference failed.
\<close>

theorem merge_all_header_only:
  "''fecha'' \<in> set (columns header_only) \<and>
   ''sueldo_nominal_ars'' \<in> set (columns header_only) \<and>
   merge_all no_parse keep_order header_only Unfetched = Inl MergeError \<and>
   app_out no_parse keep_order header_only Unfetched None None = Inl MergeError"
  by (simp add: header_only_def app_eval)

theorem merge_all_schema_error_witness:
  "''sueldo_nominal_ars'' \<notin> set (columns no_salary) \<and>
   merge_all no_parse keep_order no_salary Unfetched = Inl SchemaError \<and>
   app_df no_parse keep_order no_salary Unfetched = Inl SchemaError \<and>
   app_out no_parse keep_order no_salary Unfetched None None = Inl SchemaError \<and>
   ''fecha'' \<in> set (columns scenario_A) \<and> ''sueldo_nominal_ars'' \<in> set (columns scenario_A) \<and>
   rows scenario_A \<noteq> [] \<and>
   \<not> isl (merge_all no_parse keep_order scenario_A Unfetched)"
proof -
  have a: "''sueldo_nominal_ars'' \<notin> set (columns no_salary)"
    by (simp add: no_salary_def)
  have b: "''fecha'' \<in> set (columns scenario_A)" "''sueldo_nominal_ars'' \<in> set (columns scenario_A)"
    "rows scenario_A \<noteq> []"
    by (simp_all add: scenario_A_def)
  show ?thesis
    using merge_all_schema_error [of no_parse keep_order no_salary Unfetched None None]
      merge_all_schema_error [of no_parse keep_order scenario_A Unfetched None None] a b
    by simp
qed

end
